theory Spec2Isabelle
  imports Main
begin

section \<open>Strings\<close>

text \<open>
  Identities are JavaScript strings. They are modelled as \<^typ>\<open>string\<close> restricted to
  ASCII: \<open>toLowerCase\<close> maps the letters A-Z and leaves every other character alone,
  \<open>trim\<close> strips the ASCII white space (tab, line feed, vertical tab, form feed,
  carriage return, space) from both ends.
\<close>

definition toLowerCase_char :: "char \<Rightarrow> char" where
  "toLowerCase_char c =
     (case map_of (zip ''ABCDEFGHIJKLMNOPQRSTUVWXYZ'' ''abcdefghijklmnopqrstuvwxyz'') c of
        None \<Rightarrow> c
      | Some l \<Rightarrow> l)"

definition toLowerCase :: "string \<Rightarrow> string" where
  "toLowerCase s = map toLowerCase_char s"

definition is_space :: "char \<Rightarrow> bool" where
  "is_space c = (c \<in> set [CHR 0x09, CHR 0x0A, CHR 0x0B, CHR 0x0C, CHR 0x0D, CHR '' ''])"

definition trim :: "string \<Rightarrow> string" where
  "trim s = rev (dropWhile is_space (rev (dropWhile is_space s)))"

definition startsWith :: "string \<Rightarrow> string \<Rightarrow> bool" where
  "startsWith s p = (take (length p) s = p)"

text \<open>
  \<open>s.split(c)\<close> for a one-character separator: every occurrence separates, empty
  pieces are kept, and the result always has at least one piece.
\<close>

fun split :: "char \<Rightarrow> string \<Rightarrow> string list" where
  "split c [] = [[]]"
| "split c (x # xs) =
     (if x = c then [] # split c xs
      else (case split c xs of
              [] \<Rightarrow> [[x]]
            | p # ps \<Rightarrow> (x # p) # ps))"

text \<open>\<open>xs[i]\<close> of JavaScript: \<open>undefined\<close> (here \<open>None\<close>) out of range.\<close>

definition index :: "'a list \<Rightarrow> nat \<Rightarrow> 'a option" where
  "index xs i = (if i < length xs then Some (xs ! i) else None)"

section \<open>Configuration (config/config.js)\<close>

text \<open>
  Times are integers: milliseconds since the epoch for \<open>Date.now()\<close>, \<open>new Date()\<close> and
  \<open>lockoutTime\<close>, seconds for \<open>CURRENT_TIMESTAMP\<close> and for the token lifetime
  \<open>expiresIn\<close>.
\<close>

record config =
  bcryptRounds :: nat
  passwordMinLength :: nat
  maxLoginAttempts :: int
  lockoutTime :: int
  jwt_secret :: string
  jwt_expiresIn :: int

definition config :: config where
  "config = \<lparr> bcryptRounds = 12, passwordMinLength = 8, maxLoginAttempts = 5,
              lockoutTime = 15 * 60 * 1000,
              jwt_secret = ''jwt_default_secret_change_in_production'',
              jwt_expiresIn = 3600 \<rparr>"

section \<open>The store (database/init.js, database/connection.js)\<close>

text \<open>A row of table \<open>usuarios\<close>. \<open>bloqueado_hasta\<close> holds the ISO string written by
  \<open>incrementFailedAttempts\<close>, that is a time in milliseconds, or NULL.\<close>

record usuario =
  uid :: nat
  nombre :: string
  email :: string
  password_hash :: string
  rol :: string
  activo :: bool
  intentos_fallidos :: int
  bloqueado_hasta :: "int option"
  ultimo_login :: "int option"
  fecha_creacion :: int
  fecha_actualizacion :: int

text \<open>A row of table \<open>intentos_login\<close>, the login-attempt ledger.\<close>

record intento =
  intento_email :: string
  ip_address :: "string option"
  exitoso :: bool
  fecha :: int

text \<open>
  The database: the two tables, the AUTOINCREMENT sequence of \<open>usuarios\<close>, and
  whether the engine accepts an INSERT into \<open>intentos_login\<close>. When it does not
  (table missing, database locked or full), \<open>stmt.run\<close> throws. Reads, and writes
  to \<open>usuarios\<close>, are taken to succeed.
\<close>

record db =
  usuarios :: "usuario list"
  intentos_login :: "intento list"
  seq_usuarios :: nat
  intentos_login_ok :: bool

datatype error =
    EmailYaRegistrado      \<comment> \<open>\<open>Error('El email ya esta registrado')\<close>\<close>
  | CuentaBloqueada        \<comment> \<open>\<open>Error('Cuenta bloqueada temporalmente. Intente mas tarde.')\<close>\<close>
  | CuentaDesactivada      \<comment> \<open>\<open>Error('La cuenta esta desactivada')\<close>\<close>
  | SqliteError            \<comment> \<open>thrown by \<open>stmt.run\<close>\<close>

definition CURRENT_TIMESTAMP :: "int \<Rightarrow> int" where
  "CURRENT_TIMESTAMP now = now div 1000"

section \<open>models/Usuario.js\<close>

text \<open>The projection \<open>SELECT id, nombre, email, rol, activo, ultimo_login, fecha_creacion\<close>.\<close>

record usuario_vista =
  v_id :: nat
  v_nombre :: string
  v_email :: string
  v_rol :: string
  v_activo :: bool
  v_ultimo_login :: "int option"
  v_fecha_creacion :: int

definition vista :: "usuario \<Rightarrow> usuario_vista" where
  "vista u = \<lparr> v_id = uid u, v_nombre = nombre u, v_email = email u, v_rol = rol u,
               v_activo = activo u, v_ultimo_login = ultimo_login u,
               v_fecha_creacion = fecha_creacion u \<rparr>"

text \<open>The object \<open>{id, nombre, email, rol}\<close> returned by \<open>create\<close> and
  \<open>verifyCredentials\<close>.\<close>

record usuario_publico =
  p_id :: nat
  p_nombre :: string
  p_email :: string
  p_rol :: string

definition findById :: "nat \<Rightarrow> db \<Rightarrow> usuario_vista option" where
  "findById i d = map_option vista (find (\<lambda>u. uid u = i \<and> activo u) (usuarios d))"

definition findByEmail :: "string \<Rightarrow> db \<Rightarrow> usuario option" where
  "findByEmail e d = find (\<lambda>u. email u = trim (toLowerCase e)) (usuarios d)"

text \<open>The CHECK constraint of column \<open>rol\<close>.\<close>

definition rol_valido :: "string \<Rightarrow> bool" where
  "rol_valido r = (r \<in> set [''admin'', ''usuario'', ''moderador''])"

text \<open>The rowid SQLite gives an AUTOINCREMENT insert: one more than the largest ever used.\<close>

definition lastInsertRowid :: "db \<Rightarrow> nat" where
  "lastInsertRowid d = Suc (fold max (map uid (usuarios d)) (seq_usuarios d))"

text \<open>
  \<open>Usuario.create({nombre, email, password, rol = 'usuario'})\<close>. \<open>bcrypt_hash\<close> stands for
  \<open>bcrypt.hash\<close> of the library bcryptjs; \<open>now\<close> is the clock in milliseconds.
  An absent \<open>rol\<close> is \<open>None\<close>.
\<close>

definition insert_usuario :: "nat \<Rightarrow> string \<Rightarrow> string \<Rightarrow> string \<Rightarrow> string \<Rightarrow> int \<Rightarrow> usuario" where
  \<comment> \<open>the row of \<open>INSERT INTO usuarios (nombre, email, password_hash, rol)\<close>; the other
     columns take the defaults of the schema\<close>
  "insert_usuario i n e h r now =
     \<lparr> uid = i, nombre = n, email = e, password_hash = h, rol = r, activo = True,
       intentos_fallidos = 0, bloqueado_hasta = None, ultimo_login = None,
       fecha_creacion = CURRENT_TIMESTAMP now, fecha_actualizacion = CURRENT_TIMESTAMP now \<rparr>"

definition create ::
  "config \<Rightarrow> (string \<Rightarrow> nat \<Rightarrow> string) \<Rightarrow> int \<Rightarrow> string \<Rightarrow> string \<Rightarrow> string \<Rightarrow> string option \<Rightarrow> db
     \<Rightarrow> (error + usuario_publico) \<times> db" where
  "create cfg bcrypt_hash now nombre' email' password rol' d =
     (let r = (case rol' of None \<Rightarrow> ''usuario'' | Some x \<Rightarrow> x) in
      case findByEmail email' d of
        Some existingUser \<Rightarrow> (Inl EmailYaRegistrado, d)
      | None \<Rightarrow>
          (let passwordHash = bcrypt_hash password (bcryptRounds cfg) in
           if \<not> rol_valido r then (Inl SqliteError, d)
           else
             (let i = lastInsertRowid d;
                  row = insert_usuario i (trim nombre') (trim (toLowerCase email'))
                          passwordHash r now
              in (Inr \<lparr> p_id = i, p_nombre = trim nombre', p_email = trim (toLowerCase email'),
                        p_rol = r \<rparr>,
                  d\<lparr> usuarios := usuarios d @ [row], seq_usuarios := i \<rparr>))))"

text \<open>\<open>UPDATE usuarios SET ... WHERE id = ?\<close>: every row with that id is rewritten.\<close>

definition update_where_id :: "nat \<Rightarrow> (usuario \<Rightarrow> usuario) \<Rightarrow> db \<Rightarrow> db" where
  "update_where_id i f d = d\<lparr> usuarios := map (\<lambda>u. if uid u = i then f u else u) (usuarios d) \<rparr>"

definition incrementFailedAttempts :: "config \<Rightarrow> int \<Rightarrow> nat \<Rightarrow> db \<Rightarrow> db" where
  "incrementFailedAttempts cfg now userId d =
     (let user = find (\<lambda>u. uid u = userId) (usuarios d);
          newAttempts = (case user of None \<Rightarrow> 0 | Some u \<Rightarrow> intentos_fallidos u) + 1;
          bloqueadoHasta =
            (if newAttempts \<ge> maxLoginAttempts cfg then Some (now + lockoutTime cfg) else None)
      in update_where_id userId
           (\<lambda>u. u\<lparr> intentos_fallidos := newAttempts, bloqueado_hasta := bloqueadoHasta \<rparr>) d)"

definition resetFailedAttempts :: "nat \<Rightarrow> db \<Rightarrow> db" where
  "resetFailedAttempts userId d =
     update_where_id userId (\<lambda>u. u\<lparr> intentos_fallidos := 0, bloqueado_hasta := None \<rparr>) d"

definition updateLastLogin :: "int \<Rightarrow> nat \<Rightarrow> db \<Rightarrow> db" where
  "updateLastLogin now userId d =
     update_where_id userId (\<lambda>u. u\<lparr> ultimo_login := Some (CURRENT_TIMESTAMP now) \<rparr>) d"

text \<open>\<open>registerLoginAttempt(email, exitoso, ipAddress = null)\<close>: no \<open>try\<close> surrounds
  \<open>stmt.run\<close>, so its exception leaves the function.\<close>

definition registerLoginAttempt ::
  "int \<Rightarrow> string \<Rightarrow> bool \<Rightarrow> string option \<Rightarrow> db \<Rightarrow> (error + unit) \<times> db" where
  "registerLoginAttempt now email' exitoso' ipAddress d =
     (if \<not> intentos_login_ok d then (Inl SqliteError, d)
      else (Inr (),
            d\<lparr> intentos_login := intentos_login d @
                 [\<lparr> intento_email = toLowerCase email', ip_address = ipAddress,
                    exitoso = exitoso', fecha = CURRENT_TIMESTAMP now \<rparr>] \<rparr>))"

definition deactivate :: "int \<Rightarrow> nat \<Rightarrow> db \<Rightarrow> bool \<times> db" where
  "deactivate now i d =
     (\<exists>u \<in> set (usuarios d). uid u = i,
      update_where_id i
        (\<lambda>u. u\<lparr> activo := False, fecha_actualizacion := CURRENT_TIMESTAMP now \<rparr>) d)"

definition activate :: "int \<Rightarrow> nat \<Rightarrow> db \<Rightarrow> bool \<times> db" where
  "activate now i d =
     (\<exists>u \<in> set (usuarios d). uid u = i,
      update_where_id i
        (\<lambda>u. u\<lparr> activo := True, fecha_actualizacion := CURRENT_TIMESTAMP now \<rparr>) d)"

text \<open>
  \<open>Usuario.verifyCredentials(email, password)\<close>. \<open>bcrypt_compare\<close> stands for
  \<open>bcrypt.compare\<close>. The result is the thrown error, \<open>null\<close> (\<open>Inr None\<close>) or the
  public user object, together with the database the call leaves behind. The call reads
  the clock once.
\<close>

definition bloqueado :: "int \<Rightarrow> usuario \<Rightarrow> bool" where
  "bloqueado now user = (case bloqueado_hasta user of None \<Rightarrow> False | Some t \<Rightarrow> t > now)"

definition publico :: "usuario \<Rightarrow> usuario_publico" where
  "publico user = \<lparr> p_id = uid user, p_nombre = nombre user, p_email = email user,
                    p_rol = rol user \<rparr>"

definition verifyCredentials ::
  "config \<Rightarrow> (string \<Rightarrow> string \<Rightarrow> bool) \<Rightarrow> int \<Rightarrow> string \<Rightarrow> string \<Rightarrow> db
     \<Rightarrow> (error + usuario_publico option) \<times> db" where
  "verifyCredentials cfg bcrypt_compare now email' password d =
     (case findByEmail email' d of
        None \<Rightarrow>
          (case registerLoginAttempt now email' False None d of
             (Inl e, d1) \<Rightarrow> (Inl e, d1)
           | (Inr _, d1) \<Rightarrow> (Inr None, d1))
      | Some user \<Rightarrow>
          if bloqueado now user then (Inl CuentaBloqueada, d)
          else if \<not> activo user then (Inl CuentaDesactivada, d)
          else
            (let isValid = bcrypt_compare password (password_hash user) in
             if \<not> isValid then
               (let d1 = incrementFailedAttempts cfg now (uid user) d in
                case registerLoginAttempt now email' False None d1 of
                  (Inl e, d2) \<Rightarrow> (Inl e, d2)
                | (Inr _, d2) \<Rightarrow> (Inr None, d2))
             else
               (let d1 = resetFailedAttempts (uid user) d;
                    d2 = updateLastLogin now (uid user) d1 in
                case registerLoginAttempt now email' True None d2 of
                  (Inl e, d3) \<Rightarrow> (Inl e, d3)
                | (Inr _, d3) \<Rightarrow> (Inr (Some (publico user)), d3))))"

section \<open>middleware/auth.js\<close>

text \<open>
  The library jsonwebtoken is not part of the repository. Its two entry points are
  parameters of the model: \<open>jwt_sign now payload secret expiresIn\<close> for
  \<open>jwt.sign(payload, secret, {expiresIn})\<close> and \<open>jwt_verify now token secret\<close> for
  \<open>jwt.verify(token, secret)\<close>, which returns the decoded payload or throws. Both read
  the clock \<open>now\<close>.
\<close>

datatype jwt_error = TokenExpiredError | JsonWebTokenError | NotBeforeError

record jwt_claims =
  userId :: nat
  c_email :: string
  c_rol :: string

record jwt_decoded = jwt_claims +
  iat :: int
  exp :: int

type_synonym jwt_sign = "int \<Rightarrow> jwt_claims \<Rightarrow> string \<Rightarrow> int \<Rightarrow> string"
type_synonym jwt_verify = "int \<Rightarrow> string option \<Rightarrow> string \<Rightarrow> jwt_error + jwt_decoded"

datatype mensaje =
    TokenNoProporcionado            \<comment> \<open>\<open>'Token de acceso no proporcionado'\<close>\<close>
  | UsuarioNoEncontradoOInactivo    \<comment> \<open>\<open>'Usuario no encontrado o inactivo'\<close>\<close>
  | TokenExpirado                   \<comment> \<open>\<open>'Token expirado. Por favor, inicie sesion nuevamente.'\<close>\<close>
  | TokenInvalido                   \<comment> \<open>\<open>'Token invalido'\<close>\<close>

text \<open>What the middleware does with the request: answer \<open>res.status(n).json({success: false,
  message})\<close>, or set \<open>req.user\<close> and call \<open>next()\<close>.\<close>

datatype respuesta = Json nat mensaje | Next usuario_vista

definition verifyToken :: "jwt_verify \<Rightarrow> config \<Rightarrow> int \<Rightarrow> string option \<Rightarrow> db \<Rightarrow> respuesta" where
  "verifyToken jwt_verify cfg now authorization d =
     (case authorization of
        None \<Rightarrow> Json 401 TokenNoProporcionado
      | Some authHeader \<Rightarrow>
          if authHeader = [] \<or> \<not> startsWith authHeader ''Bearer ''
          then Json 401 TokenNoProporcionado
          else
            (let token = index (split CHR '' '' authHeader) 1 in
             case jwt_verify now token (jwt_secret cfg) of
               Inr decoded \<Rightarrow>
                 (case findById (userId decoded) d of
                    None \<Rightarrow> Json 401 UsuarioNoEncontradoOInactivo
                  | Some user \<Rightarrow> Next user)
             | Inl error \<Rightarrow>
                 if error = TokenExpiredError then Json 401 TokenExpirado
                 else Json 401 TokenInvalido))"

text \<open>The value of the request header \<open>Authorization: Bearer <s>\<close>.\<close>

definition bearer :: "string \<Rightarrow> string" where
  "bearer s = ''Bearer '' @ s"

definition generateToken :: "jwt_sign \<Rightarrow> config \<Rightarrow> int \<Rightarrow> usuario_publico \<Rightarrow> string" where
  "generateToken jwt_sign cfg now user =
     jwt_sign now \<lparr> userId = p_id user, c_email = p_email user, c_rol = p_rol user \<rparr>
       (jwt_secret cfg) (jwt_expiresIn cfg)"

section \<open>controllers/authController.js\<close>

text \<open>\<open>req.body\<close> of a registration request. The handlers read \<open>nombre\<close>, \<open>email\<close> and
  \<open>password\<close>; \<open>rol\<close> is a field a caller may add to the payload.\<close>

record req_body =
  body_nombre :: string
  body_email :: string
  body_password :: string
  body_rol :: "string option"

datatype flash = FlashSuccess | FlashErrors error

datatype respuesta_registro =
    Redirect string flash                \<comment> \<open>\<open>req.flash(...); res.redirect(path)\<close>\<close>
  | Status201 usuario_publico string     \<comment> \<open>\<open>res.status(201).json({data: {user, token}})\<close>\<close>
  | Status400 error                      \<comment> \<open>\<open>res.status(400).json({message: error.message})\<close>\<close>

definition register ::
  "config \<Rightarrow> (string \<Rightarrow> nat \<Rightarrow> string) \<Rightarrow> int \<Rightarrow> 'a req_body_scheme \<Rightarrow> db
     \<Rightarrow> respuesta_registro \<times> db" where
  "register cfg bcrypt_hash now body d =
     (case create cfg bcrypt_hash now (body_nombre body) (body_email body) (body_password body)
             (Some ''usuario'') d of
        (Inr user, d1) \<Rightarrow> (Redirect ''/auth/login'' FlashSuccess, d1)
      | (Inl error, d1) \<Rightarrow> (Redirect ''/auth/register'' (FlashErrors error), d1))"

definition apiRegister ::
  "config \<Rightarrow> (string \<Rightarrow> nat \<Rightarrow> string) \<Rightarrow> jwt_sign \<Rightarrow> int \<Rightarrow> 'a req_body_scheme \<Rightarrow> db
     \<Rightarrow> respuesta_registro \<times> db" where
  "apiRegister cfg bcrypt_hash jwt_sign now body d =
     (case create cfg bcrypt_hash now (body_nombre body) (body_email body) (body_password body)
             (Some ''usuario'') d of
        (Inr user, d1) \<Rightarrow> (Status201 user (generateToken jwt_sign cfg now user), d1)
      | (Inl error, d1) \<Rightarrow> (Status400 error, d1))"

section \<open>Drivers and sample data\<close>

text \<open>A sequence of \<open>verifyCredentials\<close> calls for one identity, each with its clock
  reading and password; the results in order and the database left behind.\<close>

fun intentos ::
  "config \<Rightarrow> (string \<Rightarrow> string \<Rightarrow> bool) \<Rightarrow> string \<Rightarrow> (int \<times> string) list \<Rightarrow> db
     \<Rightarrow> (error + usuario_publico option) list \<times> db" where
  "intentos cfg bcrypt_compare e [] d = ([], d)"
| "intentos cfg bcrypt_compare e ((t, p) # rest) d =
     (case verifyCredentials cfg bcrypt_compare t e p d of
        (r, d1) \<Rightarrow>
          (case intentos cfg bcrypt_compare e rest d1 of
             (rs, d2) \<Rightarrow> (r # rs, d2)))"

text \<open>The PRIMARY KEY of \<open>usuarios\<close>.\<close>

definition pk_usuarios :: "db \<Rightarrow> bool" where
  "pk_usuarios d = distinct (map uid (usuarios d))"

text \<open>Stand-ins for bcryptjs and jsonwebtoken with which the theorems are instantiated:
  a hash that tags the password, and a token that lists its claims and times (in unary)
  followed by the signing secret.\<close>

definition hash_sim :: "string \<Rightarrow> nat \<Rightarrow> string" where
  "hash_sim p rounds = ''$2a$'' @ p"

definition compare_sim :: "string \<Rightarrow> string \<Rightarrow> bool" where
  "compare_sim p h = (h = ''$2a$'' @ p)"

definition unary :: "int \<Rightarrow> string" where
  "unary n = replicate (nat n) CHR ''1''"

definition sign_sim :: jwt_sign where
  "sign_sim now payload secret expiresIn =
     unary (int (userId payload)) @ ''|'' @ c_email payload @ ''|'' @ c_rol payload @ ''|'' @
     unary (now div 1000) @ ''|'' @ unary (now div 1000 + expiresIn) @ ''|'' @ secret"

definition verify_sim :: jwt_verify where
  "verify_sim now token secret =
     (case token of
        None \<Rightarrow> Inl JsonWebTokenError
      | Some t \<Rightarrow>
          (case split CHR ''|'' t of
             [u, e, r, i, x, s] \<Rightarrow>
               if s \<noteq> secret then Inl JsonWebTokenError
               else if now div 1000 \<ge> int (length x) then Inl TokenExpiredError
               else Inr \<lparr> userId = length u, c_email = e, c_rol = r,
                          iat = int (length i), exp = int (length x) \<rparr>
           | _ \<Rightarrow> Inl JsonWebTokenError))"

definition db_vacia :: db where
  "db_vacia = \<lparr> usuarios = [], intentos_login = [], seq_usuarios = 0, intentos_login_ok = True \<rparr>"

definition ana :: usuario where
  "ana = \<lparr> uid = 1, nombre = ''Ana'', email = ''a@x.com'', password_hash = ''$2a$Secret1!'',
           rol = ''usuario'', activo = True, intentos_fallidos = 0, bloqueado_hasta = None,
           ultimo_login = None, fecha_creacion = 0, fecha_actualizacion = 0 \<rparr>"

definition cinco_fallos :: "(int \<times> string) list" where
  "cinco_fallos = [(1, ''wrong''), (2, ''wrong''), (3, ''wrong''), (4, ''wrong''), (5, ''wrong'')]"

definition db_ana :: db where
  "db_ana = snd (create config hash_sim 0 ''Ana'' ''a@x.com'' ''Secret1!'' None db_vacia)"

definition config_corta :: config where
  "config_corta = config\<lparr> jwt_secret := ''k'', jwt_expiresIn := 5 \<rparr>"

text \<open>The database after five wrong passwords for Ana, and her row in it.\<close>

definition db_bloqueada :: db where
  "db_bloqueada = snd (intentos config compare_sim ''a@x.com'' cinco_fallos db_ana)"

definition ana_bloqueada :: usuario where
  "ana_bloqueada = ana\<lparr> intentos_fallidos := 5, bloqueado_hasta := Some 900005 \<rparr>"

text \<open>Ana deactivated; Ana promoted to administrator; the ledger table out of order.\<close>

definition db_inactiva :: db where
  "db_inactiva = snd (deactivate 1000 1 db_ana)"

definition db_promovida :: db where
  "db_promovida = db_ana\<lparr> usuarios := [ana\<lparr> rol := ''admin'' \<rparr>] \<rparr>"

definition db_sin_ledger :: db where
  "db_sin_ledger = db_ana\<lparr> intentos_login_ok := False \<rparr>"

text \<open>A registration payload that asks for the administrator role.\<close>

definition body_eva :: req_body where
  "body_eva = \<lparr> body_nombre = ''Eva'', body_email = ''eva@x.com'', body_password = ''Secret2!'',
                body_rol = Some ''admin'' \<rparr>"

text \<open>The token issued to Ana at second 10, valid for 5 seconds.\<close>

definition token_ana :: string where
  "token_ana = generateToken sign_sim config_corta 10000 (publico ana)"

section \<open>Lookups and updates\<close>

lemma find_map_pres: "(\<And>x. P (g x) = P x) \<Longrightarrow> find P (map g xs) = map_option g (find P xs)"
  by (induction xs) auto

lemma find_distinct: "distinct (map f xs) \<Longrightarrow> x \<in> set xs \<Longrightarrow> find (\<lambda>y. f y = f x) xs = Some x"
  by (induction xs) (auto simp: rev_image_eqI)

lemma find_distinct_and:
  "distinct (map f xs) \<Longrightarrow> x \<in> set xs \<Longrightarrow> Q x \<Longrightarrow> find (\<lambda>y. f y = f x \<and> Q y) xs = Some x"
  by (induction xs) (auto simp: rev_image_eqI)

lemma find_Some_mem: "find P xs = Some x \<Longrightarrow> x \<in> set xs \<and> P x"
  by (induction xs) (auto split: if_splits)

lemma find_append_new: "find P xs = None \<Longrightarrow> P x \<Longrightarrow> find P (xs @ [x]) = Some x"
  by (induction xs) (auto split: if_splits)

lemma findByEmail_update:
  assumes "\<And>x. email (f x) = email x"
  shows "findByEmail e (update_where_id i f d) =
         map_option (\<lambda>x. if uid x = i then f x else x) (findByEmail e d)"
  unfolding findByEmail_def update_where_id_def
  by (simp add: find_map_pres assms)

lemma usuarios_update:
  "usuarios (update_where_id i f d) = map (\<lambda>u. if uid u = i then f u else u) (usuarios d)"
  by (simp add: update_where_id_def)

lemma pk_update:
  assumes "\<And>x. uid (f x) = uid x"
  shows "pk_usuarios (update_where_id i f d) = pk_usuarios d"
proof -
  have "uid \<circ> (\<lambda>u. if uid u = i then f u else u) = uid"
    by (auto simp: fun_eq_iff assms)
  then have "map uid (map (\<lambda>u. if uid u = i then f u else u) (usuarios d)) = map uid (usuarios d)"
    by (simp only: map_map)
  then show ?thesis by (simp only: pk_usuarios_def usuarios_update)
qed

lemma find_uid:
  assumes "pk_usuarios d" "findByEmail e d = Some u"
  shows "find (\<lambda>x. uid x = uid u) (usuarios d) = Some u"
  using assms find_distinct[of uid "usuarios d" u] find_Some_mem[of _ "usuarios d" u]
  by (simp add: pk_usuarios_def findByEmail_def)

lemma ledger_frame [simp]:
  "findByEmail e (d\<lparr> intentos_login := l \<rparr>) = findByEmail e d"
  "pk_usuarios (d\<lparr> intentos_login := l \<rparr>) = pk_usuarios d"
  by (simp_all add: findByEmail_def pk_usuarios_def)

lemma update_frame [simp]:
  "intentos_login_ok (update_where_id i f d) = intentos_login_ok d"
  "intentos_login (update_where_id i f d) = intentos_login d"
  by (simp_all add: update_where_id_def)

lemma incrementFailedAttempts_row:
  assumes "pk_usuarios d" "findByEmail e d = Some u"
  shows "incrementFailedAttempts cfg t (uid u) d =
         update_where_id (uid u) (\<lambda>x. x\<lparr> intentos_fallidos := intentos_fallidos u + 1,
            bloqueado_hasta := (if intentos_fallidos u + 1 \<ge> maxLoginAttempts cfg
                                then Some (t + lockoutTime cfg) else None) \<rparr>) d"
  by (simp add: incrementFailedAttempts_def find_uid[OF assms] Let_def)

lemma registerLoginAttempt_frame:
  "findByEmail e (snd (registerLoginAttempt t e' x ip d)) = findByEmail e d"
  "pk_usuarios (snd (registerLoginAttempt t e' x ip d)) = pk_usuarios d"
  "intentos_login_ok (snd (registerLoginAttempt t e' x ip d)) = intentos_login_ok d"
  by (simp_all add: registerLoginAttempt_def)

lemma verifyCredentials_locked:
  "findByEmail e d = Some u \<Longrightarrow> bloqueado t u \<Longrightarrow>
   verifyCredentials cfg cmp t e p d = (Inl CuentaBloqueada, d)"
  by (simp add: verifyCredentials_def)

lemma verifyCredentials_inactive:
  "findByEmail e d = Some u \<Longrightarrow> \<not> bloqueado t u \<Longrightarrow> \<not> activo u \<Longrightarrow>
   verifyCredentials cfg cmp t e p d = (Inl CuentaDesactivada, d)"
  by (simp add: verifyCredentials_def)

lemma verifyCredentials_snd_wrong:
  assumes "findByEmail e d = Some u" "\<not> bloqueado t u" "activo u" "\<not> cmp p (password_hash u)"
  shows "snd (verifyCredentials cfg cmp t e p d) =
         snd (registerLoginAttempt t e False None (incrementFailedAttempts cfg t (uid u) d))"
    and "intentos_login_ok d \<Longrightarrow> fst (verifyCredentials cfg cmp t e p d) = Inr None"
  using assms
  by (simp_all add: verifyCredentials_def Let_def registerLoginAttempt_def incrementFailedAttempts_def)

lemma verifyCredentials_wrong:
  assumes pk: "pk_usuarios d" and f: "findByEmail e d = Some u" and nb: "\<not> bloqueado t u"
    and act: "activo u" and w: "\<not> cmp p (password_hash u)"
  shows "findByEmail e (snd (verifyCredentials cfg cmp t e p d)) =
           Some (u\<lparr> intentos_fallidos := intentos_fallidos u + 1,
                    bloqueado_hasta := (if intentos_fallidos u + 1 \<ge> maxLoginAttempts cfg
                                        then Some (t + lockoutTime cfg) else None) \<rparr>)"
    and "pk_usuarios (snd (verifyCredentials cfg cmp t e p d))"
    and "intentos_login_ok (snd (verifyCredentials cfg cmp t e p d)) = intentos_login_ok d"
  unfolding verifyCredentials_snd_wrong(1)[where cmp=cmp and p=p, OF f nb act w] registerLoginAttempt_frame
    incrementFailedAttempts_row[OF pk f]
  using pk f by (simp_all add: findByEmail_update pk_update)

lemma verifyCredentials_right:
  assumes pk: "pk_usuarios d" and f: "findByEmail e d = Some u" and nb: "\<not> bloqueado t u"
    and act: "activo u" and w: "cmp p (password_hash u)"
  shows "findByEmail e (snd (verifyCredentials cfg cmp t e p d)) =
           Some (u\<lparr> intentos_fallidos := 0, bloqueado_hasta := None,
                    ultimo_login := Some (CURRENT_TIMESTAMP t) \<rparr>)"
    and "intentos_login_ok d \<Longrightarrow> fst (verifyCredentials cfg cmp t e p d) = Inr (Some (publico u))"
  using assms
  by (simp_all add: verifyCredentials_def Let_def registerLoginAttempt_def resetFailedAttempts_def
      updateLastLogin_def findByEmail_update)

lemma intentos_wrong:
  assumes "pk_usuarios d" "findByEmail e d = Some u" "activo u" "bloqueado_hasta u = None"
    and "\<forall>a \<in> set as. \<not> cmp (snd a) (password_hash u)"
    and "intentos_fallidos u + int (length as) \<le> maxLoginAttempts cfg"
  shows "findByEmail e (snd (intentos cfg cmp e as d)) =
           Some (if as = [] then u
                 else u\<lparr> intentos_fallidos := intentos_fallidos u + int (length as),
                         bloqueado_hasta :=
                           (if intentos_fallidos u + int (length as) \<ge> maxLoginAttempts cfg
                            then Some (fst (last as) + lockoutTime cfg) else None) \<rparr>)
         \<and> pk_usuarios (snd (intentos cfg cmp e as d))
         \<and> intentos_login_ok (snd (intentos cfg cmp e as d)) = intentos_login_ok d
         \<and> (intentos_login_ok d \<longrightarrow> (\<forall>r \<in> set (fst (intentos cfg cmp e as d)). r = Inr None))"
  using assms
proof (induction as arbitrary: d u)
  case Nil
  then show ?case by simp
next
  case (Cons a rest)
  obtain t p where a: "a = (t, p)" by (cases a)
  let ?d1 = "snd (verifyCredentials cfg cmp t e p d)"
  let ?u1 = "u\<lparr> intentos_fallidos := intentos_fallidos u + 1,
                 bloqueado_hasta := (if intentos_fallidos u + 1 \<ge> maxLoginAttempts cfg
                                     then Some (t + lockoutTime cfg) else None) \<rparr>"
  have nb: "\<not> bloqueado t u" using Cons.prems(4) by (simp add: bloqueado_def)
  have w: "\<not> cmp p (password_hash u)" using Cons.prems(5) a by simp
  note step = verifyCredentials_wrong[where cmp=cmp and p=p and cfg=cfg, OF Cons.prems(1,2) nb Cons.prems(3) w]
  have r1: "intentos_login_ok d \<Longrightarrow> fst (verifyCredentials cfg cmp t e p d) = Inr None"
    by (rule verifyCredentials_snd_wrong(2)[where cmp=cmp and p=p, OF Cons.prems(2) nb Cons.prems(3) w])
  have unfold: "intentos cfg cmp e (a # rest) d =
      (fst (verifyCredentials cfg cmp t e p d) # fst (intentos cfg cmp e rest ?d1),
       snd (intentos cfg cmp e rest ?d1))"
    by (simp add: a split: prod.splits)
  show ?case
  proof (cases "rest = []")
    case True
    then show ?thesis using step r1 unfold by (simp add: a)
  next
    case False
    then have "length rest \<ge> 1" by (cases rest) simp_all
    with Cons.prems(6) have lt: "\<not> intentos_fallidos u + 1 \<ge> maxLoginAttempts cfg" by simp
    have u1: "findByEmail e ?d1 = Some ?u1" by (rule step(1))
    have IH: "findByEmail e (snd (intentos cfg cmp e rest ?d1)) =
           Some (if rest = [] then ?u1
                 else ?u1\<lparr> intentos_fallidos := intentos_fallidos ?u1 + int (length rest),
                         bloqueado_hasta :=
                           (if intentos_fallidos ?u1 + int (length rest) \<ge> maxLoginAttempts cfg
                            then Some (fst (last rest) + lockoutTime cfg) else None) \<rparr>)
         \<and> pk_usuarios (snd (intentos cfg cmp e rest ?d1))
         \<and> intentos_login_ok (snd (intentos cfg cmp e rest ?d1)) = intentos_login_ok ?d1
         \<and> (intentos_login_ok ?d1 \<longrightarrow> (\<forall>r \<in> set (fst (intentos cfg cmp e rest ?d1)). r = Inr None))"
      using Cons.prems lt
      by (intro Cons.IH[OF step(2) u1]) simp_all
    show ?thesis
      using IH False r1 step(3) unfolding unfold
      by (simp add: add.assoc add.commute)
  qed
qed

lemma create_nuevo:
  assumes "findByEmail e d = None" "rol_valido r"
  shows "create cfg h now n e p (Some r) d =
           (Inr (publico (insert_usuario (lastInsertRowid d) (trim n) (trim (toLowerCase e))
                            (h p (bcryptRounds cfg)) r now)),
            d\<lparr> usuarios := usuarios d @
                  [insert_usuario (lastInsertRowid d) (trim n) (trim (toLowerCase e))
                     (h p (bcryptRounds cfg)) r now],
               seq_usuarios := lastInsertRowid d \<rparr>)"
  using assms by (simp add: create_def Let_def publico_def insert_usuario_def)

lemma findByEmail_exists:
  "\<exists>u \<in> set (usuarios d). email u = trim (toLowerCase e) \<Longrightarrow> \<exists>u. findByEmail e d = Some u"
  by (cases "findByEmail e d") (auto simp: findByEmail_def find_None_iff)

lemma create_taken:
  "\<exists>u \<in> set (usuarios d). email u = trim (toLowerCase e) \<Longrightarrow>
   create cfg h now n e p r d = (Inl EmailYaRegistrado, d)"
  using findByEmail_exists[of d e] by (auto simp: create_def)

lemma create_appends:
  assumes "create cfg h now n e p r d = (Inr user, d1)"
  shows "\<exists>row. usuarios d1 = usuarios d @ [row] \<and> email row = trim (toLowerCase e)"
  using assms
  by (auto simp: create_def Let_def insert_usuario_def split: option.splits if_splits)

lemma findById_active:
  "pk_usuarios d \<Longrightarrow> u \<in> set (usuarios d) \<Longrightarrow> activo u \<Longrightarrow> findById (uid u) d = Some (vista u)"
  using find_distinct_and[of uid "usuarios d" u activo]
  by (simp add: findById_def pk_usuarios_def)

lemma findById_none:
  "\<forall>u \<in> set (usuarios d). uid u = i \<longrightarrow> \<not> activo u \<Longrightarrow> findById i d = None"
  by (auto simp: findById_def find_None_iff)

section \<open>The Authorization header\<close>

lemma split_hd: "\<exists>r. split c s = takeWhile (\<lambda>x. x \<noteq> c) s # r"
  by (induction s) (auto split: list.splits)

lemma bearer_token:
  "index (split CHR '' '' (bearer s)) (Suc 0) = Some (takeWhile (\<lambda>x. x \<noteq> CHR '' '') s)"
proof -
  obtain r where r: "split CHR '' '' s = takeWhile (\<lambda>x. x \<noteq> CHR '' '') s # r"
    using split_hd by blast
  have "split CHR '' '' (bearer s) = ''Bearer'' # split CHR '' '' s"
    by (simp add: bearer_def)
  then show ?thesis by (simp add: r index_def)
qed

lemma verifyToken_bearer:
  "verifyToken jv cfg now (Some (bearer (s))) d =
     (case jv now (Some (takeWhile (\<lambda>x. x \<noteq> CHR '' '') s)) (jwt_secret cfg) of
        Inr decoded \<Rightarrow>
          (case findById (userId decoded) d of
             None \<Rightarrow> Json 401 UsuarioNoEncontradoOInactivo
           | Some user \<Rightarrow> Next user)
      | Inl error \<Rightarrow>
          if error = TokenExpiredError then Json 401 TokenExpirado else Json 401 TokenInvalido)"
proof -
  have sw: "startsWith (bearer s) ''Bearer ''" and ne: "bearer s \<noteq> []"
    by (simp_all add: startsWith_def bearer_def)
  show ?thesis
    using sw ne by (simp add: verifyToken_def Let_def bearer_token)
qed

lemma takeWhile_all: "c \<notin> set s \<Longrightarrow> takeWhile (\<lambda>x. x \<noteq> c) s = s"
  by (induction s) auto

lemma takeWhile_junk: "c \<notin> set s \<Longrightarrow> takeWhile (\<lambda>x. x \<noteq> c) (s @ c # r) = s"
  by (induction s) auto

section \<open>The sample data\<close>

lemma db_ana_eq:
  "db_ana = \<lparr> usuarios = [ana], intentos_login = [], seq_usuarios = 1, intentos_login_ok = True \<rparr>"
  by (simp add: db_ana_def create_def db_vacia_def findByEmail_def rol_valido_def
      lastInsertRowid_def insert_usuario_def ana_def hash_sim_def trim_def toLowerCase_def
      toLowerCase_char_def is_space_def CURRENT_TIMESTAMP_def Let_def)

lemma ana_found: "findByEmail ''a@x.com'' db_ana = Some ana"
  by (simp add: db_ana_eq findByEmail_def ana_def trim_def toLowerCase_def
      toLowerCase_char_def is_space_def)

lemma pk_db_ana: "pk_usuarios db_ana"
  by (simp add: db_ana_eq pk_usuarios_def)

lemma create_db_ana:
  "create config hash_sim 0 ''Ana'' ''a@x.com'' ''Secret1!'' None db_vacia = (Inr (publico ana), db_ana)"
  by (simp add: db_ana_eq create_def db_vacia_def findByEmail_def rol_valido_def publico_def
      lastInsertRowid_def insert_usuario_def ana_def hash_sim_def trim_def toLowerCase_def
      toLowerCase_char_def is_space_def CURRENT_TIMESTAMP_def Let_def)

lemma db_bloqueada_found: "findByEmail ''a@x.com'' db_bloqueada = Some ana_bloqueada"
proof -
  have "findByEmail ''a@x.com'' (snd (intentos config compare_sim ''a@x.com'' cinco_fallos db_ana)) =
        Some (if cinco_fallos = [] then ana
              else ana\<lparr> intentos_fallidos := intentos_fallidos ana + int (length cinco_fallos),
                bloqueado_hasta := (if intentos_fallidos ana + int (length cinco_fallos) \<ge> maxLoginAttempts config
                   then Some (fst (last cinco_fallos) + lockoutTime config) else None) \<rparr>)"
    by (rule intentos_wrong[where cmp=compare_sim and cfg=config, OF pk_db_ana ana_found, THEN conjunct1])
       (simp_all add: ana_def cinco_fallos_def compare_sim_def config_def)
  then show ?thesis
    by (simp add: db_bloqueada_def ana_bloqueada_def cinco_fallos_def config_def ana_def)
qed

lemma pk_db_bloqueada: "pk_usuarios db_bloqueada"
  unfolding db_bloqueada_def
  by (rule intentos_wrong[where cmp=compare_sim and cfg=config, OF pk_db_ana ana_found, THEN conjunct2, THEN conjunct1])
     (simp_all add: ana_def cinco_fallos_def compare_sim_def config_def)

lemma db_inactiva_found:
  "findByEmail ''a@x.com'' db_inactiva = Some (ana\<lparr> activo := False, fecha_actualizacion := 1 \<rparr>)"
  by (simp add: db_inactiva_def deactivate_def findByEmail_update ana_found ana_def
      CURRENT_TIMESTAMP_def)

lemma token_ana_eq: "token_ana = ''1|a@x.com|usuario|1111111111|111111111111111|k''"
  by (simp add: token_ana_def generateToken_def sign_sim_def config_corta_def config_def
      publico_def ana_def unary_def eval_nat_numeral)

lemma token_ana_split:
  "split CHR ''|'' token_ana = [''1'', ''a@x.com'', ''usuario'', ''1111111111'', ''111111111111111'', ''k'']"
  by (simp add: token_ana_eq)

lemma verify_sim_token_ana:
  "verify_sim t (Some token_ana) ''k'' =
     (if 15 \<le> t div 1000 then Inl TokenExpiredError
      else Inr \<lparr> userId = 1, c_email = ''a@x.com'', c_rol = ''usuario'', iat = 10, exp = 15 \<rparr>)"
  by (simp add: verify_sim_def token_ana_split)

lemma token_ana_nospace: "CHR '' '' \<notin> set token_ana"
  by (simp add: token_ana_eq)

section \<open>Lockout\<close>

text \<open>
  Claim C1. Take an active account whose failed-attempt counter is 0 and whose lockout is
  NULL, as registration and every successful login leave it, and let exactly
  \<open>maxLoginAttempts\<close> calls with a wrong password follow one another. Each of them returns
  \<open>null\<close>, and lockout-until is then the clock of the last one plus \<open>lockoutTime\<close>. Every
  call before that instant throws the locked error and changes nothing, whatever the
  password; a call at or after it with the right password succeeds and leaves the counter
  at 0 and the lockout NULL.
\<close>

theorem lockout_after_maxAttempts:
  assumes pk: "pk_usuarios d"
    and found: "findByEmail e d = Some u"
    and act: "activo u"
    and fresh: "intentos_fallidos u = 0" "bloqueado_hasta u = None"
    and n: "int (length as) = maxLoginAttempts cfg" "as \<noteq> []"
    and wrong: "\<forall>a \<in> set as. \<not> cmp (snd a) (password_hash u)"
    and ok: "intentos_login_ok d"
  shows "(\<forall>r \<in> set (fst (intentos cfg cmp e as d)). r = Inr None) \<and>
         map_option bloqueado_hasta (findByEmail e (snd (intentos cfg cmp e as d))) =
           Some (Some (fst (last as) + lockoutTime cfg)) \<and>
         (\<forall>t p. t < fst (last as) + lockoutTime cfg \<longrightarrow>
            verifyCredentials cfg cmp t e p (snd (intentos cfg cmp e as d)) =
              (Inl CuentaBloqueada, snd (intentos cfg cmp e as d))) \<and>
         (\<forall>t p. fst (last as) + lockoutTime cfg \<le> t \<and> cmp p (password_hash u) \<longrightarrow>
            fst (verifyCredentials cfg cmp t e p (snd (intentos cfg cmp e as d))) =
              Inr (Some (publico u)) \<and>
            map_option intentos_fallidos
              (findByEmail e (snd (verifyCredentials cfg cmp t e p (snd (intentos cfg cmp e as d)))))
              = Some 0 \<and>
            map_option bloqueado_hasta
              (findByEmail e (snd (verifyCredentials cfg cmp t e p (snd (intentos cfg cmp e as d)))))
              = Some None)"
proof -
  let ?d = "snd (intentos cfg cmp e as d)"
  let ?u = "u\<lparr> intentos_fallidos := maxLoginAttempts cfg,
               bloqueado_hasta := Some (fst (last as) + lockoutTime cfg) \<rparr>"
  have le: "intentos_fallidos u + int (length as) \<le> maxLoginAttempts cfg"
    using fresh n by simp
  from intentos_wrong[where cmp=cmp and cfg=cfg, OF pk found act fresh(2) wrong le]
  have f': "findByEmail e ?d = Some ?u" and pk': "pk_usuarios ?d"
    and ok': "intentos_login_ok ?d"
    and rs: "\<forall>r \<in> set (fst (intentos cfg cmp e as d)). r = Inr None"
    using n fresh ok by simp_all
  have locked: "verifyCredentials cfg cmp t e p ?d = (Inl CuentaBloqueada, ?d)"
    if "t < fst (last as) + lockoutTime cfg" for t p
    using that f' by (simp add: verifyCredentials_def bloqueado_def)
  have unlocked: "fst (verifyCredentials cfg cmp t e p ?d) = Inr (Some (publico u)) \<and>
        map_option intentos_fallidos (findByEmail e (snd (verifyCredentials cfg cmp t e p ?d))) = Some 0 \<and>
        map_option bloqueado_hasta (findByEmail e (snd (verifyCredentials cfg cmp t e p ?d))) = Some None"
    if "fst (last as) + lockoutTime cfg \<le> t" "cmp p (password_hash u)" for t p
  proof -
    have nb: "\<not> bloqueado t ?u" using that(1) by (simp add: bloqueado_def)
    have a: "activo ?u" using act by simp
    have c: "cmp p (password_hash ?u)" using that(2) by simp
    from verifyCredentials_right[where cmp=cmp and p=p and cfg=cfg, OF pk' f' nb a c] ok'
    show ?thesis by (simp add: publico_def)
  qed
  show ?thesis using rs f' locked unlocked by simp
qed

text \<open>The scenario of the specification: five wrong passwords at times 1 to 5, then the
  right one at time 6 and again when the window has elapsed.\<close>

theorem lockout_after_maxAttempts_witness:
  "verifyCredentials config compare_sim 6 ''a@x.com'' ''Secret1!''
     (snd (intentos config compare_sim ''a@x.com'' cinco_fallos db_ana)) =
     (Inl CuentaBloqueada, snd (intentos config compare_sim ''a@x.com'' cinco_fallos db_ana)) \<and>
   fst (verifyCredentials config compare_sim 900005 ''a@x.com'' ''Secret1!''
     (snd (intentos config compare_sim ''a@x.com'' cinco_fallos db_ana))) =
     Inr (Some (publico ana))"
proof -
  have h3: "activo ana" and h4: "intentos_fallidos ana = 0" and h5: "bloqueado_hasta ana = None"
    by (simp_all add: ana_def)
  have h6: "int (length cinco_fallos) = maxLoginAttempts config" and h7: "cinco_fallos \<noteq> []"
    by (simp_all add: cinco_fallos_def config_def)
  have h8: "\<forall>a \<in> set cinco_fallos. \<not> compare_sim (snd a) (password_hash ana)"
    by (simp add: cinco_fallos_def compare_sim_def ana_def)
  have h9: "intentos_login_ok db_ana" by (simp add: db_ana_eq)
  have l: "fst (last cinco_fallos) + lockoutTime config = 900005"
    by (simp add: cinco_fallos_def config_def)
  have c: "compare_sim ''Secret1!'' (password_hash ana)"
    by (simp add: compare_sim_def ana_def)
  note T = lockout_after_maxAttempts[where cmp=compare_sim and cfg=config,
      OF pk_db_ana ana_found h3 h4 h5 h6 h7 h8 h9, unfolded l]
  from T have A: "\<forall>t p. t < 900005 \<longrightarrow>
      verifyCredentials config compare_sim t ''a@x.com'' p
        (snd (intentos config compare_sim ''a@x.com'' cinco_fallos db_ana)) =
      (Inl CuentaBloqueada, snd (intentos config compare_sim ''a@x.com'' cinco_fallos db_ana))"
    by blast
  from T have B: "\<forall>t p. 900005 \<le> t \<and> compare_sim p (password_hash ana) \<longrightarrow>
      fst (verifyCredentials config compare_sim t ''a@x.com'' p
        (snd (intentos config compare_sim ''a@x.com'' cinco_fallos db_ana))) = Inr (Some (publico ana))"
    by blast
  have "(6::int) < 900005" by simp
  with A have a: "verifyCredentials config compare_sim 6 ''a@x.com'' ''Secret1!''
     (snd (intentos config compare_sim ''a@x.com'' cinco_fallos db_ana)) =
     (Inl CuentaBloqueada, snd (intentos config compare_sim ''a@x.com'' cinco_fallos db_ana))"
    by blast
  have "(900005::int) \<le> 900005" by simp
  with B c have b: "fst (verifyCredentials config compare_sim 900005 ''a@x.com'' ''Secret1!''
     (snd (intentos config compare_sim ''a@x.com'' cinco_fallos db_ana))) = Inr (Some (publico ana))"
    by blast
  from a b show ?thesis by (rule conjI)
qed

text \<open>
  Claim C9. Nothing resets the counter when the lockout window runs out. Take an active
  account whose counter has reached \<open>maxLoginAttempts\<close> and whose lockout-until is \<open>t0\<close>.
  A wrong password at or after \<open>t0\<close> moves the counter past the threshold and sets
  lockout-until to that call's clock plus \<open>lockoutTime\<close>, so every call before that new
  instant is refused as locked. A right password at or after \<open>t0\<close> writes counter 0,
  lockout NULL and the last-login stamp, and returns the user when the ledger is
  writable. Conversely, whenever a call leaves the counter at 0 or the lockout NULL, the
  window had elapsed and the password was verified. The two writers themselves:
  \<open>incrementFailedAttempts\<close>, whatever clock reading \<open>tw\<close> it takes after the password
  comparison, stores counter plus one and lockout-until \<open>tw + lockoutTime\<close>;
  \<open>resetFailedAttempts\<close> stores counter 0 and lockout NULL.
\<close>

theorem relock_after_expiry:
  assumes pk: "pk_usuarios d"
    and found: "findByEmail e d = Some u"
    and act: "activo u"
    and pos: "0 < maxLoginAttempts cfg"
    and reached: "maxLoginAttempts cfg \<le> intentos_fallidos u"
    and lock: "bloqueado_hasta u = Some t0"
  shows "(t0 \<le> now \<and> \<not> cmp p (password_hash u) \<longrightarrow>
            findByEmail e (snd (verifyCredentials cfg cmp now e p d)) =
              Some (u\<lparr> intentos_fallidos := intentos_fallidos u + 1,
                       bloqueado_hasta := Some (now + lockoutTime cfg) \<rparr>) \<and>
            maxLoginAttempts cfg < intentos_fallidos u + 1 \<and>
            (\<forall>t' p'. t' < now + lockoutTime cfg \<longrightarrow>
               fst (verifyCredentials cfg cmp t' e p' (snd (verifyCredentials cfg cmp now e p d))) =
                 Inl CuentaBloqueada)) \<and>
         (t0 \<le> now \<and> cmp p (password_hash u) \<longrightarrow>
            findByEmail e (snd (verifyCredentials cfg cmp now e p d)) =
              Some (u\<lparr> intentos_fallidos := 0, bloqueado_hasta := None,
                       ultimo_login := Some (CURRENT_TIMESTAMP now) \<rparr>) \<and>
            (intentos_login_ok d \<longrightarrow>
               fst (verifyCredentials cfg cmp now e p d) =
                 Inr (Some \<lparr> p_id = uid u, p_nombre = nombre u, p_email = email u,
                            p_rol = rol u \<rparr>))) \<and>
         (\<forall>u'. findByEmail e (snd (verifyCredentials cfg cmp now e p d)) = Some u' \<and>
               (intentos_fallidos u' = 0 \<or> bloqueado_hasta u' = None) \<longrightarrow>
               t0 \<le> now \<and> cmp p (password_hash u) \<and>
               (intentos_login_ok d \<longrightarrow>
                  fst (verifyCredentials cfg cmp now e p d) = Inr (Some (publico u)))) \<and>
         (\<forall>tw. findByEmail e (incrementFailedAttempts cfg tw (uid u) d) =
                 Some (u\<lparr> intentos_fallidos := intentos_fallidos u + 1,
                          bloqueado_hasta := Some (tw + lockoutTime cfg) \<rparr>)) \<and>
         findByEmail e (resetFailedAttempts (uid u) d) =
           Some (u\<lparr> intentos_fallidos := 0, bloqueado_hasta := None \<rparr>)"
proof (intro conjI impI allI)
  assume a: "t0 \<le> now \<and> \<not> cmp p (password_hash u)"
  then have nb: "\<not> bloqueado now u" and w: "\<not> cmp p (password_hash u)"
    using lock by (simp_all add: bloqueado_def)
  from verifyCredentials_wrong(1)[where cmp=cmp and p=p and cfg=cfg, OF pk found nb act w] reached
  show f1: "findByEmail e (snd (verifyCredentials cfg cmp now e p d)) =
              Some (u\<lparr> intentos_fallidos := intentos_fallidos u + 1,
                       bloqueado_hasta := Some (now + lockoutTime cfg) \<rparr>)"
    by simp
  show "maxLoginAttempts cfg < intentos_fallidos u + 1" using reached by simp
  fix t' p'
  assume "t' < now + lockoutTime cfg"
  then have "bloqueado t' (u\<lparr> intentos_fallidos := intentos_fallidos u + 1,
                       bloqueado_hasta := Some (now + lockoutTime cfg) \<rparr>)"
    by (simp add: bloqueado_def)
  from verifyCredentials_locked[OF f1 this]
  show "fst (verifyCredentials cfg cmp t' e p' (snd (verifyCredentials cfg cmp now e p d))) =
          Inl CuentaBloqueada"
    by simp
next
  assume a: "t0 \<le> now \<and> cmp p (password_hash u)"
  then have nb: "\<not> bloqueado now u" and c: "cmp p (password_hash u)"
    using lock by (simp_all add: bloqueado_def)
  note R = verifyCredentials_right[where cmp=cmp and p=p and cfg=cfg, OF pk found nb act c]
  show "findByEmail e (snd (verifyCredentials cfg cmp now e p d)) =
          Some (u\<lparr> intentos_fallidos := 0, bloqueado_hasta := None,
                   ultimo_login := Some (CURRENT_TIMESTAMP now) \<rparr>)"
    by (rule R(1))
  assume "intentos_login_ok d"
  with R(2) show "fst (verifyCredentials cfg cmp now e p d) =
          Inr (Some \<lparr> p_id = uid u, p_nombre = nombre u, p_email = email u, p_rol = rol u \<rparr>)"
    by (simp add: publico_def)
next
  fix u'
  assume b: "findByEmail e (snd (verifyCredentials cfg cmp now e p d)) = Some u' \<and>
             (intentos_fallidos u' = 0 \<or> bloqueado_hasta u' = None)"
  have nb: "\<not> bloqueado now u"
  proof
    assume "bloqueado now u"
    from verifyCredentials_locked[OF found this] b found have "u' = u" by simp
    with b pos reached lock show False by simp
  qed
  then show "t0 \<le> now" using lock by (simp add: bloqueado_def)
  show c: "cmp p (password_hash u)"
  proof (rule ccontr)
    assume w: "\<not> cmp p (password_hash u)"
    from verifyCredentials_wrong(1)[where cmp=cmp and p=p and cfg=cfg, OF pk found nb act w] b reached pos
    show False by auto
  qed
  assume "intentos_login_ok d"
  with verifyCredentials_right(2)[where cmp=cmp and p=p and cfg=cfg, OF pk found nb act c]
  show "fst (verifyCredentials cfg cmp now e p d) = Inr (Some (publico u))" by simp
next
  fix tw
  show "findByEmail e (incrementFailedAttempts cfg tw (uid u) d) =
          Some (u\<lparr> intentos_fallidos := intentos_fallidos u + 1,
                   bloqueado_hasta := Some (tw + lockoutTime cfg) \<rparr>)"
    using reached found by (simp add: incrementFailedAttempts_row[OF pk found] findByEmail_update)
next
  show "findByEmail e (resetFailedAttempts (uid u) d) =
          Some (u\<lparr> intentos_fallidos := 0, bloqueado_hasta := None \<rparr>)"
    using found by (simp add: resetFailedAttempts_def findByEmail_update)
qed

text \<open>Ana, locked until 900005 with counter 5: a wrong password at 900005 leaves counter 6
  and a new lockout; the right password at 900005 leaves counter 0 and no lockout, and
  returns her.\<close>

theorem relock_after_expiry_witness:
  "findByEmail ''a@x.com''
     (snd (verifyCredentials config compare_sim 900005 ''a@x.com'' ''wrong'' db_bloqueada)) =
     Some \<lparr> uid = 1, nombre = ''Ana'', email = ''a@x.com'', password_hash = ''$2a$Secret1!'',
            rol = ''usuario'', activo = True, intentos_fallidos = 6,
            bloqueado_hasta = Some 1800005, ultimo_login = None, fecha_creacion = 0,
            fecha_actualizacion = 0 \<rparr> \<and>
   findByEmail ''a@x.com''
     (snd (verifyCredentials config compare_sim 900005 ''a@x.com'' ''Secret1!'' db_bloqueada)) =
     Some \<lparr> uid = 1, nombre = ''Ana'', email = ''a@x.com'', password_hash = ''$2a$Secret1!'',
            rol = ''usuario'', activo = True, intentos_fallidos = 0,
            bloqueado_hasta = None, ultimo_login = Some 900, fecha_creacion = 0,
            fecha_actualizacion = 0 \<rparr> \<and>
   fst (verifyCredentials config compare_sim 900005 ''a@x.com'' ''Secret1!'' db_bloqueada) =
     Inr (Some \<lparr> p_id = 1, p_nombre = ''Ana'', p_email = ''a@x.com'', p_rol = ''usuario'' \<rparr>) \<and>
   findByEmail ''a@x.com'' (resetFailedAttempts 1 db_bloqueada) =
     Some \<lparr> uid = 1, nombre = ''Ana'', email = ''a@x.com'', password_hash = ''$2a$Secret1!'',
            rol = ''usuario'', activo = True, intentos_fallidos = 0,
            bloqueado_hasta = None, ultimo_login = None, fecha_creacion = 0,
            fecha_actualizacion = 0 \<rparr>"
proof -
  have h3: "activo ana_bloqueada" by (simp add: ana_bloqueada_def ana_def)
  have h4: "0 < maxLoginAttempts config" by (simp add: config_def)
  have h5: "maxLoginAttempts config \<le> intentos_fallidos ana_bloqueada"
    by (simp add: config_def ana_bloqueada_def)
  have h6: "bloqueado_hasta ana_bloqueada = Some 900005" by (simp add: ana_bloqueada_def)
  have h7: "(900005::int) \<le> 900005 \<and> \<not> compare_sim ''wrong'' (password_hash ana_bloqueada)"
    by (simp add: compare_sim_def ana_bloqueada_def ana_def)
  have h8: "(900005::int) \<le> 900005 \<and> compare_sim ''Secret1!'' (password_hash ana_bloqueada)"
    by (simp add: compare_sim_def ana_bloqueada_def ana_def)
  have ok: "intentos_login_ok db_bloqueada"
    using intentos_wrong[where cmp=compare_sim and cfg=config and as=cinco_fallos,
        OF pk_db_ana ana_found]
    by (simp add: db_bloqueada_def ana_def cinco_fallos_def compare_sim_def config_def db_ana_eq)
  note W = relock_after_expiry[where cmp=compare_sim and p="''wrong''" and now=900005
      and cfg=config, OF pk_db_bloqueada db_bloqueada_found h3 h4 h5 h6]
  note G = relock_after_expiry[where cmp=compare_sim and p="''Secret1!''" and now=900005
      and cfg=config, OF pk_db_bloqueada db_bloqueada_found h3 h4 h5 h6]
  from W[THEN conjunct1, rule_format, OF h7]
  have 1: "findByEmail ''a@x.com''
     (snd (verifyCredentials config compare_sim 900005 ''a@x.com'' ''wrong'' db_bloqueada)) =
     Some \<lparr> uid = 1, nombre = ''Ana'', email = ''a@x.com'', password_hash = ''$2a$Secret1!'',
            rol = ''usuario'', activo = True, intentos_fallidos = 6,
            bloqueado_hasta = Some 1800005, ultimo_login = None, fecha_creacion = 0,
            fecha_actualizacion = 0 \<rparr>"
    by (simp add: ana_bloqueada_def ana_def config_def)
  from G[THEN conjunct2, THEN conjunct1, rule_format, OF h8]
  have 2: "findByEmail ''a@x.com''
     (snd (verifyCredentials config compare_sim 900005 ''a@x.com'' ''Secret1!'' db_bloqueada)) =
     Some \<lparr> uid = 1, nombre = ''Ana'', email = ''a@x.com'', password_hash = ''$2a$Secret1!'',
            rol = ''usuario'', activo = True, intentos_fallidos = 0,
            bloqueado_hasta = None, ultimo_login = Some 900, fecha_creacion = 0,
            fecha_actualizacion = 0 \<rparr>"
    and 3: "fst (verifyCredentials config compare_sim 900005 ''a@x.com'' ''Secret1!'' db_bloqueada) =
     Inr (Some \<lparr> p_id = 1, p_nombre = ''Ana'', p_email = ''a@x.com'', p_rol = ''usuario'' \<rparr>)"
    using ok by (simp_all add: ana_bloqueada_def ana_def CURRENT_TIMESTAMP_def)
  from G[THEN conjunct2, THEN conjunct2, THEN conjunct2, THEN conjunct2]
  have 4: "findByEmail ''a@x.com'' (resetFailedAttempts 1 db_bloqueada) =
     Some \<lparr> uid = 1, nombre = ''Ana'', email = ''a@x.com'', password_hash = ''$2a$Secret1!'',
            rol = ''usuario'', activo = True, intentos_fallidos = 0,
            bloqueado_hasta = None, ultimo_login = None, fecha_creacion = 0,
            fecha_actualizacion = 0 \<rparr>"
    by (simp add: ana_bloqueada_def ana_def)
  from 1 2 3 4 show ?thesis by blast
qed

section \<open>Order of the checks\<close>

text \<open>
  Claim C4. The checks of \<open>verifyCredentials\<close> run in the order lookup, lockout, active
  flag, password, and the first that fails decides: an unknown identity returns \<open>null\<close>; a
  locked account throws the locked error whatever its active flag and the password; an
  account that is not locked and not active throws the deactivated error whatever the
  password, and the database is left as it was, so no counter moves and the result does
  not depend on \<open>bcrypt_compare\<close>; only an account that is found, not locked and active has
  its password compared.
\<close>

theorem verifyCredentials_order:
  "(findByEmail e d = None \<and> intentos_login_ok d \<longrightarrow>
      fst (verifyCredentials cfg cmp now e p d) = Inr None) \<and>
   (findByEmail e d = Some u \<and> bloqueado now u \<longrightarrow>
      verifyCredentials cfg cmp now e p d = (Inl CuentaBloqueada, d)) \<and>
   (findByEmail e d = Some u \<and> \<not> bloqueado now u \<and> \<not> activo u \<longrightarrow>
      verifyCredentials cfg cmp now e p d = (Inl CuentaDesactivada, d)) \<and>
   (findByEmail e d = Some u \<and> \<not> bloqueado now u \<and> activo u \<and> intentos_login_ok d \<longrightarrow>
      fst (verifyCredentials cfg cmp now e p d) =
        (if cmp p (password_hash u) then Inr (Some (publico u)) else Inr None))"
  by (simp add: verifyCredentials_def registerLoginAttempt_def Let_def
      incrementFailedAttempts_def resetFailedAttempts_def updateLastLogin_def)

text \<open>Ana deactivated, then the right password.\<close>

theorem verifyCredentials_order_witness:
  "verifyCredentials config compare_sim 2000 ''a@x.com'' ''Secret1!'' db_inactiva =
     (Inl CuentaDesactivada, db_inactiva)"
proof -
  have h: "findByEmail ''a@x.com'' db_inactiva = Some (ana\<lparr> activo := False, fecha_actualizacion := 1 \<rparr>)
           \<and> \<not> bloqueado 2000 (ana\<lparr> activo := False, fecha_actualizacion := 1 \<rparr>)
           \<and> \<not> activo (ana\<lparr> activo := False, fecha_actualizacion := 1 \<rparr>)"
    by (simp add: db_inactiva_found bloqueado_def ana_def)
  from verifyCredentials_order[THEN conjunct2, THEN conjunct2, THEN conjunct1, rule_format, OF h]
  show ?thesis .
qed

section \<open>The login-attempt ledger\<close>

text \<open>
  Claim C2 says the ledger record carries the raw attempted identity. The record carries
  \<open>email.toLowerCase()\<close>: for the unknown identity \<open>Ghost@X.com\<close> the key written is
  \<open>ghost@x.com\<close>.
\<close>

theorem unknown_identity_raw_counterexample:
  "findByEmail ''Ghost@X.com'' db_ana = None \<and>
   map intento_email
     (intentos_login (snd (verifyCredentials config compare_sim 1000 ''Ghost@X.com'' ''Secret1!'' db_ana)))
     = [''ghost@x.com''] \<and>
   ''ghost@x.com'' \<noteq> ''Ghost@X.com''"
  by (simp add: verifyCredentials_def registerLoginAttempt_def db_ana_eq findByEmail_def ana_def
      trim_def toLowerCase_def toLowerCase_char_def is_space_def)

text \<open>
  Claim C2, amended. With a writable ledger, a call whose identity matches no account
  returns \<open>null\<close> and appends one failure record keyed by the lower-cased (not trimmed)
  attempted identity, leaving everything else as it was. A wrong password for an account
  that is active and not locked returns the same \<open>null\<close> and appends the same record.
\<close>

theorem unknown_identity_ledger:
  assumes ok: "intentos_login_ok d"
  shows "(findByEmail e d = None \<longrightarrow>
            verifyCredentials cfg cmp now e p d =
              (Inr None,
               d\<lparr> intentos_login := intentos_login d @
                    [\<lparr> intento_email = toLowerCase e, ip_address = None, exitoso = False,
                       fecha = CURRENT_TIMESTAMP now \<rparr>] \<rparr>)) \<and>
         (findByEmail e d = Some u \<and> \<not> bloqueado now u \<and> activo u \<and> \<not> cmp p (password_hash u) \<longrightarrow>
            fst (verifyCredentials cfg cmp now e p d) = Inr None \<and>
            intentos_login (snd (verifyCredentials cfg cmp now e p d)) =
              intentos_login d @
                [\<lparr> intento_email = toLowerCase e, ip_address = None, exitoso = False,
                   fecha = CURRENT_TIMESTAMP now \<rparr>])"
  using ok
  by (simp add: verifyCredentials_def registerLoginAttempt_def Let_def incrementFailedAttempts_def)

text \<open>The unknown identity \<open>Ghost@X.com\<close> against Ana's database.\<close>

theorem unknown_identity_ledger_witness:
  "verifyCredentials config compare_sim 1000 ''Ghost@X.com'' ''Secret1!'' db_ana =
     (Inr None,
      db_ana\<lparr> intentos_login :=
        [\<lparr> intento_email = ''ghost@x.com'', ip_address = None, exitoso = False, fecha = 1 \<rparr>] \<rparr>)"
proof -
  have ok: "intentos_login_ok db_ana" by (simp add: db_ana_eq)
  have none: "findByEmail ''Ghost@X.com'' db_ana = None"
    by (simp add: db_ana_eq findByEmail_def ana_def trim_def toLowerCase_def
        toLowerCase_char_def is_space_def)
  have l: "toLowerCase ''Ghost@X.com'' = ''ghost@x.com''"
    by (simp add: toLowerCase_def toLowerCase_char_def)
  from unknown_identity_ledger[OF ok, THEN conjunct1, rule_format, OF none,
      of config compare_sim 1000 "''Secret1!''"]
  show ?thesis by (simp add: l CURRENT_TIMESTAMP_def db_ana_eq)
qed

text \<open>
  Claim C3 says a failing ledger write never changes the result. With the right password
  Ana is returned when the ledger is writable, and the call throws when it is not.
\<close>

theorem ledger_failure_counterexample:
  "fst (verifyCredentials config compare_sim 1000 ''a@x.com'' ''Secret1!'' db_ana) =
     Inr (Some (publico ana)) \<and>
   fst (verifyCredentials config compare_sim 1000 ''a@x.com'' ''Secret1!'' db_sin_ledger) =
     Inl SqliteError"
proof -
  have f: "findByEmail ''a@x.com'' db_sin_ledger = Some ana"
    using ana_found by (simp add: db_sin_ledger_def findByEmail_def)
  show ?thesis
    by (simp add: verifyCredentials_def f ana_found registerLoginAttempt_def Let_def
        resetFailedAttempts_def updateLastLogin_def bloqueado_def compare_sim_def)
       (simp add: ana_def db_ana_eq db_sin_ledger_def)
qed

text \<open>
  Claim C3, amended. A failing ledger write is not swallowed: \<open>verifyCredentials\<close> throws the
  storage error in place of its result. For an unknown identity nothing has been written;
  for a verified password the counter reset and the last-login stamp have already been
  written; for a wrong password the counter increment has. When the write succeeds a
  verified password returns the user.
\<close>

theorem ledger_failure_propagates:
  "(\<not> intentos_login_ok d \<and> findByEmail e d = None \<longrightarrow>
      verifyCredentials cfg cmp now e p d = (Inl SqliteError, d)) \<and>
   (\<not> intentos_login_ok d \<and> findByEmail e d = Some u \<and> \<not> bloqueado now u \<and> activo u \<and>
    cmp p (password_hash u) \<longrightarrow>
      verifyCredentials cfg cmp now e p d =
        (Inl SqliteError, updateLastLogin now (uid u) (resetFailedAttempts (uid u) d))) \<and>
   (\<not> intentos_login_ok d \<and> findByEmail e d = Some u \<and> \<not> bloqueado now u \<and> activo u \<and>
    \<not> cmp p (password_hash u) \<longrightarrow>
      verifyCredentials cfg cmp now e p d =
        (Inl SqliteError, incrementFailedAttempts cfg now (uid u) d)) \<and>
   (intentos_login_ok d \<and> findByEmail e d = Some u \<and> \<not> bloqueado now u \<and> activo u \<and>
    cmp p (password_hash u) \<longrightarrow>
      fst (verifyCredentials cfg cmp now e p d) = Inr (Some (publico u)))"
  by (simp add: verifyCredentials_def registerLoginAttempt_def Let_def
      incrementFailedAttempts_def resetFailedAttempts_def updateLastLogin_def)

text \<open>Ana's right password while the ledger table is out of order.\<close>

theorem ledger_failure_propagates_witness:
  "verifyCredentials config compare_sim 1000 ''a@x.com'' ''Secret1!'' db_sin_ledger =
     (Inl SqliteError, updateLastLogin 1000 1 (resetFailedAttempts 1 db_sin_ledger))"
proof -
  have h: "\<not> intentos_login_ok db_sin_ledger \<and> findByEmail ''a@x.com'' db_sin_ledger = Some ana \<and>
           \<not> bloqueado 1000 ana \<and> activo ana \<and> compare_sim ''Secret1!'' (password_hash ana)"
    using ana_found
    by (simp add: db_sin_ledger_def findByEmail_def bloqueado_def ana_def compare_sim_def)
  have i: "uid ana = 1" by (simp add: ana_def)
  from ledger_failure_propagates[where cmp=compare_sim and p="''Secret1!''" and cfg=config,
      THEN conjunct2, THEN conjunct1, rule_format, OF h]
  show ?thesis by (simp only: i)
qed

section \<open>Registration\<close>

text \<open>
  Claim C7. After a successful \<open>create\<close>, every further \<open>create\<close> whose identity normalises
  to the same string throws the duplicate error and returns the database unchanged,
  whatever its other arguments; more generally so does every \<open>create\<close> for which some row
  already holds the normalised identity, and both registration handlers then answer with
  that error and leave the database unchanged.
\<close>

theorem create_duplicate:
  "(create cfg h now n e p r d = (Inr user, d1) \<and> trim (toLowerCase e') = trim (toLowerCase e) \<longrightarrow>
      create cfg' h' now' n' e' p' r' d1 = (Inl EmailYaRegistrado, d1)) \<and>
   ((\<exists>u \<in> set (usuarios d). email u = trim (toLowerCase e')) \<longrightarrow>
      create cfg' h' now' n' e' p' r' d = (Inl EmailYaRegistrado, d)) \<and>
   ((\<exists>u \<in> set (usuarios d). email u = trim (toLowerCase (body_email body))) \<longrightarrow>
      register cfg' h' now' body d =
        (Redirect ''/auth/register'' (FlashErrors EmailYaRegistrado), d) \<and>
      apiRegister cfg' h' sg now' body d = (Status400 EmailYaRegistrado, d))"
proof (intro conjI impI)
  assume a: "create cfg h now n e p r d = (Inr user, d1) \<and>
             trim (toLowerCase e') = trim (toLowerCase e)"
  then obtain row where "usuarios d1 = usuarios d @ [row]" "email row = trim (toLowerCase e)"
    using create_appends by blast
  with a have "\<exists>u \<in> set (usuarios d1). email u = trim (toLowerCase e')" by simp
  then show "create cfg' h' now' n' e' p' r' d1 = (Inl EmailYaRegistrado, d1)"
    by (rule create_taken)
next
  assume "\<exists>u \<in> set (usuarios d). email u = trim (toLowerCase e')"
  then show "create cfg' h' now' n' e' p' r' d = (Inl EmailYaRegistrado, d)"
    by (rule create_taken)
next
  assume b: "\<exists>u \<in> set (usuarios d). email u = trim (toLowerCase (body_email body))"
  show "register cfg' h' now' body d =
          (Redirect ''/auth/register'' (FlashErrors EmailYaRegistrado), d)"
    by (simp add: register_def create_taken[OF b])
  show "apiRegister cfg' h' sg now' body d = (Status400 EmailYaRegistrado, d)"
    by (simp add: apiRegister_def create_taken[OF b])
qed

text \<open>Ana is registered; \<open>A@X.com\<close> with blanks around it is registered again.\<close>

theorem create_duplicate_witness:
  "create config hash_sim 5 ''Eva'' '' A@X.com '' ''Secret2!'' (Some ''admin'') db_ana =
     (Inl EmailYaRegistrado, db_ana)"
proof -
  have same: "trim (toLowerCase '' A@X.com '') = trim (toLowerCase ''a@x.com'')"
    by (simp add: trim_def toLowerCase_def toLowerCase_char_def is_space_def)
  from create_duplicate[where cfg'=config and h'=hash_sim, THEN conjunct1, rule_format,
      OF conjI, OF create_db_ana same]
  show ?thesis .
qed

text \<open>
  Claim C5. Both registration handlers ignore a \<open>rol\<close> field in the payload: two payloads
  that differ only in it give the same response and the same database. When the identity
  is free the account created has role \<open>usuario\<close>, and the user object the API returns has
  it too; when it is taken no account is created.
\<close>

theorem register_rol:
  "register cfg h now (body\<lparr> body_rol := r \<rparr>) d = register cfg h now body d \<and>
   apiRegister cfg h sg now (body\<lparr> body_rol := r \<rparr>) d = apiRegister cfg h sg now body d \<and>
   (findByEmail (body_email body) d = None \<longrightarrow>
      fst (register cfg h now body d) = Redirect ''/auth/login'' FlashSuccess \<and>
      map rol (usuarios (snd (register cfg h now body d))) = map rol (usuarios d) @ [''usuario''] \<and>
      (\<exists>user. fst (apiRegister cfg h sg now body d) =
                 Status201 user (generateToken sg cfg now user) \<and> p_rol user = ''usuario'') \<and>
      map rol (usuarios (snd (apiRegister cfg h sg now body d))) =
        map rol (usuarios d) @ [''usuario'']) \<and>
   (findByEmail (body_email body) d \<noteq> None \<longrightarrow>
      snd (register cfg h now body d) = d \<and> snd (apiRegister cfg h sg now body d) = d)"
proof -
  have rv: "rol_valido ''usuario''" by (simp add: rol_valido_def)
  show ?thesis
    by (auto simp: register_def apiRegister_def create_def Let_def rv insert_usuario_def)
qed

text \<open>Eva asks for the administrator role.\<close>

theorem register_rol_witness:
  "register config hash_sim 7 body_eva db_ana =
     register config hash_sim 7 (body_eva\<lparr> body_rol := None \<rparr>) db_ana \<and>
   map rol (usuarios (snd (register config hash_sim 7 body_eva db_ana))) = [''usuario'', ''usuario'']"
proof -
  have none: "findByEmail (body_email body_eva) db_ana = None"
    by (simp add: body_eva_def db_ana_eq findByEmail_def ana_def trim_def toLowerCase_def
        toLowerCase_char_def is_space_def)
  have b: "(body_eva\<lparr> body_rol := None \<rparr>)\<lparr> body_rol := Some ''admin'' \<rparr> = body_eva"
    by (simp add: body_eva_def)
  note T = register_rol[where cfg=config and h=hash_sim and now=7 and d=db_ana and sg=sign_sim]
  from T[where body="body_eva\<lparr> body_rol := None \<rparr>" and r="Some ''admin''"]
  have 1: "register config hash_sim 7 body_eva db_ana =
     register config hash_sim 7 (body_eva\<lparr> body_rol := None \<rparr>) db_ana"
    unfolding b by (rule conjunct1)
  from T[where body=body_eva and r=None, THEN conjunct2, THEN conjunct2, THEN conjunct1, rule_format, OF none]
  have 2: "map rol (usuarios (snd (register config hash_sim 7 body_eva db_ana))) =
      map rol (usuarios db_ana) @ [''usuario'']"
    by blast
  from 1 2 show ?thesis by (simp add: db_ana_eq ana_def)
qed

section \<open>Tokens\<close>

text \<open>
  Claim C10. When the library accepts the token, \<open>verifyToken\<close> looks its \<open>userId\<close> up in
  the store: if no row with that id is active (the account was deactivated or does not
  exist) the answer is 401; otherwise \<open>req.user\<close> carries, field by field, the id, name,
  identity, role, active flag, last login and creation date of the row now stored, whatever
  identity and role the token's claims carry.
\<close>

theorem verifyToken_revalidates:
  assumes valid: "jwt_verify now (Some tok) (jwt_secret cfg) = Inr decoded"
    and nospace: "CHR '' '' \<notin> set tok"
  shows "((\<forall>u \<in> set (usuarios d). uid u = userId decoded \<longrightarrow> \<not> activo u) \<longrightarrow>
            verifyToken jwt_verify cfg now (Some (bearer (tok))) d =
              Json 401 UsuarioNoEncontradoOInactivo) \<and>
         (\<forall>u. pk_usuarios d \<and> u \<in> set (usuarios d) \<and> uid u = userId decoded \<and> activo u \<longrightarrow>
            verifyToken jwt_verify cfg now (Some (bearer (tok))) d =
              Next \<lparr> v_id = uid u, v_nombre = nombre u, v_email = email u, v_rol = rol u,
                     v_activo = True, v_ultimo_login = ultimo_login u,
                     v_fecha_creacion = fecha_creacion u \<rparr>)"
proof (intro conjI impI allI)
  assume "\<forall>u \<in> set (usuarios d). uid u = userId decoded \<longrightarrow> \<not> activo u"
  then have "findById (userId decoded) d = None" by (rule findById_none)
  then show "verifyToken jwt_verify cfg now (Some (bearer tok)) d =
               Json 401 UsuarioNoEncontradoOInactivo"
    using valid by (simp add: verifyToken_bearer takeWhile_all[OF nospace])
next
  fix u
  assume a: "pk_usuarios d \<and> u \<in> set (usuarios d) \<and> uid u = userId decoded \<and> activo u"
  then have "findById (userId decoded) d = Some (vista u)"
    using findById_active[of d u] by auto
  then have "verifyToken jwt_verify cfg now (Some (bearer tok)) d = Next (vista u)"
    using valid by (simp add: verifyToken_bearer takeWhile_all[OF nospace])
  then show "verifyToken jwt_verify cfg now (Some (bearer tok)) d =
               Next \<lparr> v_id = uid u, v_nombre = nombre u, v_email = email u, v_rol = rol u,
                      v_activo = True, v_ultimo_login = ultimo_login u,
                      v_fecha_creacion = fecha_creacion u \<rparr>"
    using a by (simp add: vista_def)
qed

text \<open>Ana's token, whose claims say role \<open>usuario\<close>, after she was deactivated, and after
  she was made administrator: \<open>req.user\<close> then has role \<open>admin\<close>.\<close>

theorem verifyToken_revalidates_witness:
  "verify_sim 12000 (Some token_ana) (jwt_secret config_corta) =
     Inr \<lparr> userId = 1, c_email = ''a@x.com'', c_rol = ''usuario'', iat = 10, exp = 15 \<rparr> \<and>
   verifyToken verify_sim config_corta 12000 (Some (bearer (token_ana))) db_inactiva =
     Json 401 UsuarioNoEncontradoOInactivo \<and>
   verifyToken verify_sim config_corta 12000 (Some (bearer (token_ana))) db_promovida =
     Next \<lparr> v_id = 1, v_nombre = ''Ana'', v_email = ''a@x.com'', v_rol = ''admin'',
            v_activo = True, v_ultimo_login = None, v_fecha_creacion = 0 \<rparr>"
proof -
  have v: "verify_sim 12000 (Some token_ana) (jwt_secret config_corta) =
           Inr \<lparr> userId = 1, c_email = ''a@x.com'', c_rol = ''usuario'', iat = 10, exp = 15 \<rparr>"
    by (simp add: verify_sim_token_ana config_corta_def)
  note T = verifyToken_revalidates[where jwt_verify=verify_sim, OF v token_ana_nospace]
  have i: "\<forall>u \<in> set (usuarios db_inactiva). uid u = userId \<lparr> userId = 1, c_email = ''a@x.com'',
             c_rol = ''usuario'', iat = 10, exp = 15 \<rparr> \<longrightarrow> \<not> activo u"
    by (simp add: db_inactiva_def deactivate_def update_where_id_def db_ana_eq ana_def)
  have p: "pk_usuarios db_promovida \<and> ana\<lparr> rol := ''admin'' \<rparr> \<in> set (usuarios db_promovida) \<and>
           uid (ana\<lparr> rol := ''admin'' \<rparr>) = userId \<lparr> userId = 1, c_email = ''a@x.com'',
             c_rol = ''usuario'', iat = 10, exp = 15 \<rparr> \<and> activo (ana\<lparr> rol := ''admin'' \<rparr>)"
    by (simp add: db_promovida_def db_ana_eq ana_def pk_usuarios_def)
  from T[where d=db_promovida, THEN conjunct2, THEN spec, THEN mp, OF p]
  have 2: "verifyToken verify_sim config_corta 12000 (Some (bearer (token_ana))) db_promovida =
     Next \<lparr> v_id = 1, v_nombre = ''Ana'', v_email = ''a@x.com'', v_rol = ''admin'',
            v_activo = True, v_ultimo_login = None, v_fecha_creacion = 0 \<rparr>"
    by (simp add: ana_def)
  from v T[where d=db_inactiva, THEN conjunct1, THEN mp, OF i] 2
  show ?thesis by blast
qed

text \<open>
  Claim C6 says every mutated token string is answered with the invalid-token error. The
  middleware verifies \<open>authHeader.split(' ')[1]\<close> only: Ana's token followed by a space
  and more text is a different string and is accepted.
\<close>

theorem token_mutated_counterexample:
  "token_ana @ '' x'' \<noteq> token_ana \<and>
   verifyToken verify_sim config_corta 12000 (Some (bearer (token_ana @ '' x''))) db_ana =
     Next (vista ana)"
proof -
  have t: "takeWhile (\<lambda>x. x \<noteq> CHR '' '') (token_ana @ '' x'') = token_ana"
    using takeWhile_junk[OF token_ana_nospace, of "''x''"] by simp
  have f: "findById (Suc 0) db_ana = Some (vista ana)"
    using findById_active[OF pk_db_ana, of ana] by (simp add: db_ana_eq) (simp add: ana_def)
  show ?thesis
    by (simp add: verifyToken_bearer t verify_sim_token_ana config_corta_def f)
qed

text \<open>
  Claim C6, amended. Take an active stored account and the token issued from its stored
  id, identity and role, and let jsonwebtoken behave as documented on that token: it
  contains no space, it verifies to its payload until \<open>expiresIn\<close> seconds have passed and
  raises \<open>TokenExpiredError\<close> from then on. With the store unchanged, \<open>verifyToken\<close> on
  \<open>Bearer <token>\<close> sets \<open>req.user\<close> to the stored record, whose id, identity and role are
  the issued ones; from the expiry on it answers 401 with the expired message; whenever
  the library rejects the text up to the first space of what follows \<open>Bearer\<close> with another
  error it answers 401 with the distinct invalid message; and text after that space is
  never looked at.
\<close>

theorem token_roundtrip:
  assumes pk: "pk_usuarios d" and mem: "u \<in> set (usuarios d)" and act: "activo u"
    and nospace: "CHR '' '' \<notin> set (generateToken jwt_sign cfg t0 (publico u))"
    and lib_valid: "\<forall>t. t0 \<le> t \<and> t div 1000 < t0 div 1000 + jwt_expiresIn cfg \<longrightarrow>
        (\<exists>i x. jwt_verify t (Some (generateToken jwt_sign cfg t0 (publico u))) (jwt_secret cfg) =
                 Inr \<lparr> userId = uid u, c_email = email u, c_rol = rol u, iat = i, exp = x \<rparr>)"
    and lib_expired: "\<forall>t. t0 div 1000 + jwt_expiresIn cfg \<le> t div 1000 \<longrightarrow>
        jwt_verify t (Some (generateToken jwt_sign cfg t0 (publico u))) (jwt_secret cfg) =
          Inl TokenExpiredError"
  shows "(t0 \<le> t \<and> t div 1000 < t0 div 1000 + jwt_expiresIn cfg \<longrightarrow>
            verifyToken jwt_verify cfg t
              (Some (bearer (generateToken jwt_sign cfg t0 (publico u)))) d = Next (vista u) \<and>
            v_id (vista u) = p_id (publico u) \<and> v_email (vista u) = p_email (publico u) \<and>
            v_rol (vista u) = p_rol (publico u)) \<and>
         (t0 div 1000 + jwt_expiresIn cfg \<le> t div 1000 \<longrightarrow>
            verifyToken jwt_verify cfg t
              (Some (bearer (generateToken jwt_sign cfg t0 (publico u)))) d =
              Json 401 TokenExpirado) \<and>
         (\<forall>s e. jwt_verify t (Some (takeWhile (\<lambda>c. c \<noteq> CHR '' '') s)) (jwt_secret cfg) = Inl e \<and>
                e \<noteq> TokenExpiredError \<longrightarrow>
            verifyToken jwt_verify cfg t (Some (bearer (s))) d = Json 401 TokenInvalido) \<and>
         (\<forall>s. verifyToken jwt_verify cfg t
                 (Some (bearer (generateToken jwt_sign cfg t0 (publico u) @ '' '' @ s))) d =
               verifyToken jwt_verify cfg t
                 (Some (bearer (generateToken jwt_sign cfg t0 (publico u)))) d)"
proof (intro conjI impI allI)
  let ?tok = "generateToken jwt_sign cfg t0 (publico u)"
  have tw: "takeWhile (\<lambda>x. x \<noteq> CHR '' '') ?tok = ?tok" by (rule takeWhile_all[OF nospace])
  {
    assume "t0 \<le> t \<and> t div 1000 < t0 div 1000 + jwt_expiresIn cfg"
    with lib_valid obtain i x where
      "jwt_verify t (Some ?tok) (jwt_secret cfg) =
         Inr \<lparr> userId = uid u, c_email = email u, c_rol = rol u, iat = i, exp = x \<rparr>"
      by blast
    then show "verifyToken jwt_verify cfg t (Some (bearer (?tok))) d = Next (vista u)"
      by (simp add: verifyToken_bearer tw findById_active[OF pk mem act])
  }
  show "v_id (vista u) = p_id (publico u)" "v_email (vista u) = p_email (publico u)"
       "v_rol (vista u) = p_rol (publico u)"
    by (simp_all add: vista_def publico_def)
  {
    assume "t0 div 1000 + jwt_expiresIn cfg \<le> t div 1000"
    with lib_expired have "jwt_verify t (Some ?tok) (jwt_secret cfg) = Inl TokenExpiredError"
      by blast
    then show "verifyToken jwt_verify cfg t (Some (bearer (?tok))) d = Json 401 TokenExpirado"
      by (simp add: verifyToken_bearer tw)
  }
  {
    fix s e
    assume "jwt_verify t (Some (takeWhile (\<lambda>c. c \<noteq> CHR '' '') s)) (jwt_secret cfg) = Inl e \<and>
            e \<noteq> TokenExpiredError"
    then show "verifyToken jwt_verify cfg t (Some (bearer (s))) d = Json 401 TokenInvalido"
      by (simp add: verifyToken_bearer)
  }
  {
    fix s
    have "takeWhile (\<lambda>x. x \<noteq> CHR '' '') (?tok @ '' '' @ s) = ?tok"
      using takeWhile_junk[OF nospace, of s] by simp
    then show "verifyToken jwt_verify cfg t (Some (bearer (?tok @ '' '' @ s))) d =
               verifyToken jwt_verify cfg t (Some (bearer (?tok))) d"
      by (simp add: verifyToken_bearer tw)
  }
qed

text \<open>Ana's token two seconds after issue, at its expiry, and with a character appended.\<close>

theorem token_roundtrip_witness:
  "verifyToken verify_sim config_corta 12000 (Some (bearer (token_ana))) db_ana =
     Next (vista ana) \<and>
   verifyToken verify_sim config_corta 15000 (Some (bearer (token_ana))) db_ana =
     Json 401 TokenExpirado \<and>
   verifyToken verify_sim config_corta 12000 (Some (bearer (token_ana @ ''x''))) db_ana =
     Json 401 TokenInvalido"
proof -
  have mem: "ana \<in> set (usuarios db_ana)" by (simp add: db_ana_eq)
  have act: "activo ana" by (simp add: ana_def)
  have g: "generateToken sign_sim config_corta 10000 (publico ana) = token_ana"
    by (simp add: token_ana_def)
  have ns: "CHR '' '' \<notin> set (generateToken sign_sim config_corta 10000 (publico ana))"
    unfolding g by (rule token_ana_nospace)
  have lv: "\<forall>t. 10000 \<le> t \<and> t div 1000 < 10000 div 1000 + jwt_expiresIn config_corta \<longrightarrow>
        (\<exists>i x. verify_sim t (Some (generateToken sign_sim config_corta 10000 (publico ana)))
                 (jwt_secret config_corta) =
                 Inr \<lparr> userId = uid ana, c_email = email ana, c_rol = rol ana, iat = i, exp = x \<rparr>)"
    unfolding g by (simp add: verify_sim_token_ana config_corta_def ana_def)
  have le: "\<forall>t. 10000 div 1000 + jwt_expiresIn config_corta \<le> t div 1000 \<longrightarrow>
        verify_sim t (Some (generateToken sign_sim config_corta 10000 (publico ana)))
          (jwt_secret config_corta) = Inl TokenExpiredError"
    unfolding g by (simp add: verify_sim_token_ana config_corta_def)
  note T = token_roundtrip[where jwt_verify=verify_sim and jwt_sign=sign_sim,
      OF pk_db_ana mem act ns lv le, unfolded g]
  have a: "(10000::int) \<le> 12000 \<and> (12000::int) div 1000 < 10000 div 1000 + jwt_expiresIn config_corta"
    by (simp add: config_corta_def)
  have b: "(10000::int) div 1000 + jwt_expiresIn config_corta \<le> 15000 div 1000"
    by (simp add: config_corta_def)
  have c: "verify_sim 12000 (Some (takeWhile (\<lambda>c. c \<noteq> CHR '' '') (token_ana @ ''x'')))
             (jwt_secret config_corta) = Inl JsonWebTokenError \<and>
           JsonWebTokenError \<noteq> TokenExpiredError"
    by (simp add: verify_sim_def token_ana_eq config_corta_def)
  from T[of 12000, THEN conjunct1, rule_format, OF a, THEN conjunct1]
       T[of 15000, THEN conjunct2, THEN conjunct1, rule_format, OF b]
       T[of 12000, THEN conjunct2, THEN conjunct2, THEN conjunct1, rule_format, OF c]
  show ?thesis by blast
qed

end
